theory Spec2Isabelle
  imports Main "HOL-Library.Sublist"
begin

section \<open>Configuration constants of the service worker (sw.js, lines 1-23)\<close>

definition CACHE_NAME :: string where
  "CACHE_NAME = ''padel-tournament-v2.1.0''"

definition STATIC_CACHE :: string where
  "STATIC_CACHE = ''padel-static-v2.1.0''"

definition DYNAMIC_CACHE :: string where
  "DYNAMIC_CACHE = ''padel-dynamic-v2.1.0''"

definition OFFLINE_PAGE :: string where
  "OFFLINE_PAGE = ''/offline.html''"

definition STATIC_ASSETS :: "string list" where
  "STATIC_ASSETS =
     [''/'',
      ''/index.html'',
      ''/leaderboard.html'',
      ''/manifest.json'',
      ''/offline.html'',
      ''https://cdnjs.cloudflare.com/ajax/libs/font-awesome/6.0.0-beta3/css/all.min.css'',
      ''https://www.gstatic.com/firebasejs/9.22.0/firebase-app.js'',
      ''https://www.gstatic.com/firebasejs/9.22.0/firebase-database.js'']"

definition DYNAMIC_ASSETS :: "string list" where
  "DYNAMIC_ASSETS =
     [''https://www.gstatic.com/firebasejs/'',
      ''https://cdnjs.cloudflare.com/'',
      ''https://fonts.googleapis.com/'',
      ''https://fonts.gstatic.com/'']"

section \<open>Requests, responses and JavaScript values\<close>

text \<open>
  A request carries the four properties the worker reads: \<open>request.url\<close> (always the
  absolute, serialised URL), \<open>request.method\<close> (the field \<open>http_method\<close>),
  \<open>request.destination\<close> and
  \<open>request.mode\<close>. A response is an immutable value (status, headers, body), so
  \<open>response.clone()\<close> is the response itself.
\<close>

record request =
  url :: string
  http_method :: string
  destination :: string
  mode :: string

record response =
  status :: nat
  headers :: "(string \<times> string) list"
  body :: string

text \<open>\<open>Response.ok\<close>: the status is in the range 200-299.\<close>

definition ok :: "response \<Rightarrow> bool" where
  "ok r = (200 \<le> status r \<and> status r \<le> 299)"

text \<open>\<open>new Response("Offline", { status: 503 })\<close>\<close>

definition offline_response :: response where
  "offline_response = \<lparr>status = 503, headers = [], body = ''Offline''\<rparr>"

text \<open>\<open>new Response("App is offline", { status: 503, headers: { "Content-Type": "text/html" } })\<close>\<close>

definition offline_html_response :: response where
  "offline_html_response =
     \<lparr>status = 503, headers = [(''Content-Type'', ''text/html'')], body = ''App is offline''\<rparr>"

text \<open>
  The values that flow through the strategies' \<open>||\<close> and \<open>return\<close>: \<open>undefined\<close>
  (a cache miss), a \<open>Response\<close> object, or a promise. \<open>Promise t v\<close> is a promise that
  fulfils after \<open>t\<close> milliseconds with \<open>v\<close>; every promise that reaches a \<open>return\<close> in
  the worker has had its rejection handled, so only fulfilment is represented.
\<close>

datatype jsval = Undefined | Resp response | Promise nat jsval

text \<open>JavaScript truthiness: \<open>undefined\<close> is falsy, every object (a promise too) is truthy.\<close>

fun truthy :: "jsval \<Rightarrow> bool" where
  "truthy Undefined = False"
| "truthy (Resp r) = True"
| "truthy (Promise t v) = True"

text \<open>\<open>a || b\<close>\<close>

definition js_or :: "jsval \<Rightarrow> jsval \<Rightarrow> jsval" where
  "js_or a b = (if truthy a then a else b)"

text \<open>The result of \<open>await caches.match(...)\<close>: a response or \<open>undefined\<close>.\<close>

fun of_lookup :: "response option \<Rightarrow> jsval" where
  "of_lookup None = Undefined"
| "of_lookup (Some r) = Resp r"

text \<open>
  What the caller of an async function finally receives: a returned promise is
  adopted, so the caller sees the value it fulfils with; \<open>None\<close> is \<open>undefined\<close>,
  the absence of a response.
\<close>

fun settled :: "jsval \<Rightarrow> response option" where
  "settled Undefined = None"
| "settled (Resp r) = Some r"
| "settled (Promise t v) = settled v"

fun settle_time :: "jsval \<Rightarrow> nat" where
  "settle_time Undefined = 0"
| "settle_time (Resp r) = 0"
| "settle_time (Promise t v) = t + settle_time v"

section \<open>The Cache Store\<close>

text \<open>
  \<open>CacheStorage\<close> is an ordered collection of named caches (\<open>caches.keys()\<close> lists the
  names in creation order); each cache maps a request key, the request URL, to a stored
  response. Cache operations are taken to be immediate and not to fail.
\<close>

type_synonym cache = "string \<rightharpoonup> response"
type_synonym cache_storage = "(string \<times> cache) list"

text \<open>\<open>caches.keys()\<close>\<close>

definition caches_keys :: "cache_storage \<Rightarrow> string list" where
  "caches_keys st = map fst st"

text \<open>\<open>caches.open(name)\<close>: creates the cache when no cache of that name exists.\<close>

definition caches_open :: "string \<Rightarrow> cache_storage \<Rightarrow> cache_storage" where
  "caches_open name st = (if name \<in> set (caches_keys st) then st else st @ [(name, Map.empty)])"

text \<open>\<open>caches.delete(name)\<close>\<close>

definition caches_delete :: "string \<Rightarrow> cache_storage \<Rightarrow> cache_storage" where
  "caches_delete name st = filter (\<lambda>entry. fst entry \<noteq> name) st"

text \<open>\<open>caches.match(request)\<close>: the first hit over all caches, in creation order.\<close>

fun caches_match :: "cache_storage \<Rightarrow> string \<Rightarrow> response option" where
  "caches_match [] key = None"
| "caches_match (entry # st) key =
     (case snd entry key of Some r \<Rightarrow> Some r | None \<Rightarrow> caches_match st key)"

text \<open>\<open>cache.match(request)\<close> on the cache opened under \<open>name\<close>\<close>

definition cache_match :: "cache_storage \<Rightarrow> string \<Rightarrow> string \<Rightarrow> response option" where
  "cache_match st name key = (case map_of st name of None \<Rightarrow> None | Some c \<Rightarrow> c key)"

text \<open>\<open>cache.put(request, response)\<close> on the cache opened under \<open>name\<close>: overwrites the entry.\<close>

definition cache_put :: "cache_storage \<Rightarrow> string \<Rightarrow> string \<Rightarrow> response \<Rightarrow> cache_storage" where
  "cache_put st name key r =
     map (\<lambda>entry. if fst entry = name then (fst entry, (snd entry)(key \<mapsto> r)) else entry) st"

section \<open>The Network Fetcher\<close>

text \<open>
  \<open>fetch(request)\<close> settles after \<open>latency\<close> milliseconds, either with a response
  (of any status) or with a transport failure (the promise rejects).
\<close>

datatype net_outcome = NetResponse response | NetFailure

record net_reply =
  reply :: net_outcome
  latency :: nat

type_synonym network = "request \<Rightarrow> net_reply"

section \<open>Observable effects\<close>

text \<open>
  What a handler leaves behind: the value of its \<open>return\<close> statement, the time spent
  in its \<open>await\<close>s before returning, the Cache Store once every operation it started has
  settled, and the operations it issued on its collaborators.
\<close>

datatype event =
    NetFetch string
  | NetPost string
  | CachesMatch string
  | CacheOpen string
  | CacheMatch string string
  | CachePut string string
  | CacheDelete string
  | SyncRegister string
  | Broadcast string string

record result =
  returned :: jsval
  elapsed :: nat
  caches :: cache_storage
  trace :: "event list"

section \<open>Activation (sw.js, lines 62-85)\<close>

text \<open>
  The callback mapped over \<open>cacheNames\<close>: a name other than the three current ones is
  deleted. The deletions are independent, so running them in list order gives the state
  that \<open>Promise.all\<close> waits for.
\<close>

fun activate_sweep :: "string list \<Rightarrow> cache_storage \<Rightarrow> cache_storage \<times> event list" where
  "activate_sweep [] st = (st, [])"
| "activate_sweep (cacheName # cacheNames) st =
     (if cacheName \<noteq> STATIC_CACHE \<and> cacheName \<noteq> DYNAMIC_CACHE \<and> cacheName \<noteq> CACHE_NAME
      then (let rest = activate_sweep cacheNames (caches_delete cacheName st)
            in (fst rest, CacheDelete cacheName # snd rest))
      else activate_sweep cacheNames st)"

definition activate :: "cache_storage \<Rightarrow> cache_storage \<times> event list" where
  "activate st = activate_sweep (caches_keys st) st"

definition is_current :: "string \<Rightarrow> bool" where
  "is_current name = (name = STATIC_CACHE \<or> name = DYNAMIC_CACHE \<or> name = CACHE_NAME)"


section \<open>Caching strategies (sw.js, lines 117-198)\<close>

definition cacheFirst :: "network \<Rightarrow> request \<Rightarrow> cache_storage \<Rightarrow> result" where
  "cacheFirst net request st =
     (let cachedResponse = of_lookup (caches_match st (url request)) in
      if truthy cachedResponse
      then \<lparr>returned = cachedResponse, elapsed = 0, caches = st,
            trace = [CachesMatch (url request)]\<rparr>
      else
        (case reply (net request) of
           NetResponse networkResponse \<Rightarrow>
             if ok networkResponse
             then \<lparr>returned = Resp networkResponse, elapsed = latency (net request),
                   caches = cache_put (caches_open STATIC_CACHE st) STATIC_CACHE (url request)
                              networkResponse,
                   trace = [CachesMatch (url request), NetFetch (url request),
                            CacheOpen STATIC_CACHE, CachePut STATIC_CACHE (url request)]\<rparr>
             else \<lparr>returned = Resp networkResponse, elapsed = latency (net request),
                   caches = st,
                   trace = [CachesMatch (url request), NetFetch (url request)]\<rparr>
         | NetFailure \<Rightarrow>
             \<lparr>returned = Resp offline_response, elapsed = latency (net request), caches = st,
              trace = [CachesMatch (url request), NetFetch (url request)]\<rparr>))"

text \<open>
  The delay of the timer that \<open>networkFirst\<close> races the fetch against. A fetch that
  settles strictly before the timer wins the race; one that settles at the same instant
  or later loses it (the order of two tasks due at the same instant is left to the event
  loop, and the theorems below only speak of strictly earlier and strictly later).
\<close>

definition NETWORK_TIMEOUT :: nat where
  "NETWORK_TIMEOUT = 5000"

text \<open>The \<open>catch\<close> block of \<open>networkFirst\<close>, entered \<open>t\<close> milliseconds after the call.\<close>

definition networkFirst_catch :: "nat \<Rightarrow> request \<Rightarrow> cache_storage \<Rightarrow> result" where
  "networkFirst_catch t request st =
     (let cachedResponse = of_lookup (caches_match st (url request)) in
      \<lparr>returned = js_or cachedResponse (Resp offline_response), elapsed = t, caches = st,
       trace = [NetFetch (url request), CachesMatch (url request)]\<rparr>)"

definition networkFirst :: "network \<Rightarrow> request \<Rightarrow> cache_storage \<Rightarrow> result" where
  "networkFirst net request st =
     (if latency (net request) < NETWORK_TIMEOUT
      then
        (case reply (net request) of
           NetResponse networkResponse \<Rightarrow>
             if ok networkResponse
             then \<lparr>returned = Resp networkResponse, elapsed = latency (net request),
                   caches = cache_put (caches_open DYNAMIC_CACHE st) DYNAMIC_CACHE (url request)
                              networkResponse,
                   trace = [NetFetch (url request), CacheOpen DYNAMIC_CACHE,
                            CachePut DYNAMIC_CACHE (url request)]\<rparr>
             else \<lparr>returned = Resp networkResponse, elapsed = latency (net request),
                   caches = st, trace = [NetFetch (url request)]\<rparr>
         | NetFailure \<Rightarrow> networkFirst_catch (latency (net request)) request st)
      else networkFirst_catch NETWORK_TIMEOUT request st)"

text \<open>
  \<open>staleWhileRevalidate\<close> awaits only the cache; \<open>fetchPromise\<close> is the promise built
  by \<open>.then(...).catch(() => cachedResponse)\<close>, and the \<open>caches\<close> of the result is the
  store once that promise has settled.
\<close>

definition staleWhileRevalidate :: "network \<Rightarrow> request \<Rightarrow> cache_storage \<Rightarrow> result" where
  "staleWhileRevalidate net request st =
     (let opened = caches_open DYNAMIC_CACHE st;
          cachedResponse = of_lookup (cache_match opened DYNAMIC_CACHE (url request));
          fetchPromise =
            Promise (latency (net request))
              (case reply (net request) of
                 NetResponse networkResponse \<Rightarrow> Resp networkResponse
               | NetFailure \<Rightarrow> cachedResponse)
      in \<lparr>returned = js_or cachedResponse fetchPromise,
          elapsed = 0,
          caches =
            (case reply (net request) of
               NetResponse networkResponse \<Rightarrow>
                 if ok networkResponse
                 then cache_put opened DYNAMIC_CACHE (url request) networkResponse
                 else opened
             | NetFailure \<Rightarrow> opened),
          trace =
            [CacheOpen DYNAMIC_CACHE, CacheMatch DYNAMIC_CACHE (url request),
             NetFetch (url request)] @
            (case reply (net request) of
               NetResponse networkResponse \<Rightarrow>
                 if ok networkResponse then [CachePut DYNAMIC_CACHE (url request)] else []
             | NetFailure \<Rightarrow> [])\<rparr>)"

text \<open>
  \<open>caches.match(OFFLINE_PAGE)\<close> is given a root-relative path, which the platform
  resolves against the worker's origin before the lookup.
\<close>

definition resolve_url :: "string \<Rightarrow> string \<Rightarrow> string" where
  "resolve_url origin path = origin @ path"

text \<open>
  In the navigation branch the left operand of \<open>||\<close> is the promise returned by
  \<open>caches.match(OFFLINE_PAGE)\<close>, which is not awaited.
\<close>

definition networkFirstWithOffline ::
  "string \<Rightarrow> network \<Rightarrow> request \<Rightarrow> cache_storage \<Rightarrow> result" where
  "networkFirstWithOffline origin net request st =
     (case reply (net request) of
        NetResponse networkResponse \<Rightarrow>
          if ok networkResponse
          then \<lparr>returned = Resp networkResponse, elapsed = latency (net request),
                caches = cache_put (caches_open DYNAMIC_CACHE st) DYNAMIC_CACHE (url request)
                           networkResponse,
                trace = [NetFetch (url request), CacheOpen DYNAMIC_CACHE,
                         CachePut DYNAMIC_CACHE (url request)]\<rparr>
          else \<lparr>returned = Resp networkResponse, elapsed = latency (net request),
                caches = st, trace = [NetFetch (url request)]\<rparr>
      | NetFailure \<Rightarrow>
          (let cachedResponse = of_lookup (caches_match st (url request)) in
           if truthy cachedResponse
           then \<lparr>returned = cachedResponse, elapsed = latency (net request), caches = st,
                 trace = [NetFetch (url request), CachesMatch (url request)]\<rparr>
           else if mode request = ''navigate''
           then \<lparr>returned =
                   js_or (Promise 0 (of_lookup (caches_match st (resolve_url origin OFFLINE_PAGE))))
                         (Resp offline_html_response),
                 elapsed = latency (net request), caches = st,
                 trace = [NetFetch (url request), CachesMatch (url request),
                          CachesMatch (resolve_url origin OFFLINE_PAGE)]\<rparr>
           else \<lparr>returned = Resp offline_response, elapsed = latency (net request),
                 caches = st,
                 trace = [NetFetch (url request), CachesMatch (url request)]\<rparr>))"

text \<open>What \<open>event.respondWith\<close> receives once the strategy's promise has settled.\<close>

definition delivered :: "result \<Rightarrow> response option" where
  "delivered res = settled (returned res)"

definition delivery_time :: "result \<Rightarrow> nat" where
  "delivery_time res = elapsed res + settle_time (returned res)"

section \<open>The fetch listener (sw.js, lines 88-114)\<close>

text \<open>\<open>s.includes(t)\<close>: \<open>t\<close> occurs in \<open>s\<close> as a contiguous substring.\<close>

fun includes_str :: "string \<Rightarrow> string \<Rightarrow> bool" where
  "includes_str [] t = (t = [])"
| "includes_str (c # s) t = (prefix t (c # s) \<or> includes_str s t)"

text \<open>\<open>xs.some(p)\<close>\<close>

fun some :: "('a \<Rightarrow> bool) \<Rightarrow> 'a list \<Rightarrow> bool" where
  "some p [] = False"
| "some p (x # xs) = (p x \<or> some p xs)"

datatype strategy = CacheFirst | StaleWhileRevalidate | NetworkFirst | NetworkFirstWithOffline

text \<open>
  The branch the listener takes: \<open>None\<close> is the early \<open>return\<close> for a method other
  than GET, otherwise the strategy passed to \<open>event.respondWith\<close>.
\<close>

definition route :: "request \<Rightarrow> strategy option" where
  "route request =
     (if http_method request \<noteq> ''GET'' then None
      else if some (\<lambda>asset. includes_str (url request) asset) STATIC_ASSETS
        then Some CacheFirst
      else if some (\<lambda>pattern. includes_str (url request) pattern) DYNAMIC_ASSETS
        then Some StaleWhileRevalidate
      else if includes_str (url request) ''firebase'' \<or> includes_str (url request) ''googleapis''
        then Some NetworkFirst
      else if destination request = ''document''
        then Some NetworkFirstWithOffline
      else Some NetworkFirst)"

fun run_strategy ::
  "strategy \<Rightarrow> string \<Rightarrow> network \<Rightarrow> request \<Rightarrow> cache_storage \<Rightarrow> result" where
  "run_strategy CacheFirst origin net request st = cacheFirst net request st"
| "run_strategy StaleWhileRevalidate origin net request st = staleWhileRevalidate net request st"
| "run_strategy NetworkFirst origin net request st = networkFirst net request st"
| "run_strategy NetworkFirstWithOffline origin net request st =
     networkFirstWithOffline origin net request st"

text \<open>
  \<open>PassThrough\<close>: the listener returned without calling \<open>event.respondWith\<close>, so the
  browser handles the request as if there were no worker.
\<close>

datatype interception = PassThrough | RespondWith result

definition fetch_listener ::
  "string \<Rightarrow> network \<Rightarrow> request \<Rightarrow> cache_storage \<Rightarrow> interception" where
  "fetch_listener origin net request st =
     (case route request of
        None \<Rightarrow> PassThrough
      | Some s \<Rightarrow> RespondWith (run_strategy s origin net request st))"

text \<open>The Cache Store and the operations issued once the listener's work has settled.\<close>

fun caches_after :: "cache_storage \<Rightarrow> interception \<Rightarrow> cache_storage" where
  "caches_after st PassThrough = st"
| "caches_after st (RespondWith res) = caches res"

fun trace_of :: "interception \<Rightarrow> event list" where
  "trace_of PassThrough = []"
| "trace_of (RespondWith res) = trace res"

section \<open>Background sync (sw.js, lines 283-351)\<close>

text \<open>
  A batch read from the local data store: \<open>None\<close> is \<open>null\<close>/\<open>undefined\<close>, \<open>Some xs\<close>
  an array. \<open>getStoredData\<close> is the worker's own reader, which resolves to the empty
  array for every key. The POST of a batch to a path is \<open>post path batch\<close>.
\<close>

type_synonym batch = "string list option"
type_synonym poster = "string \<Rightarrow> string list \<Rightarrow> net_outcome"

definition getStoredData :: "string \<Rightarrow> batch" where
  "getStoredData key = Some []"

datatype thrown = FetchRejected | SyncFailed nat

text \<open>The \<open>try\<close> block of \<open>syncTournamentData\<close>: \<open>Inl\<close> is the error thrown out of it.\<close>

definition syncTournamentData_try :: "poster \<Rightarrow> (thrown + unit) \<times> event list" where
  "syncTournamentData_try post =
     (let tournaments = getStoredData ''tournaments'' in
      case tournaments of
        None \<Rightarrow> (Inr (), [])
      | Some [] \<Rightarrow> (Inr (), [])
      | Some (t # ts) \<Rightarrow>
          (case post ''/api/sync-tournaments'' (t # ts) of
             NetFailure \<Rightarrow> (Inl FetchRejected, [NetPost ''/api/sync-tournaments''])
           | NetResponse response \<Rightarrow>
               if ok response
               then (Inr (), [NetPost ''/api/sync-tournaments'',
                              Broadcast ''SYNC_SUCCESS'' ''tournaments''])
               else (Inl (SyncFailed (status response)), [NetPost ''/api/sync-tournaments''])))"

definition syncTournamentData :: "poster \<Rightarrow> event list" where
  "syncTournamentData post =
     (case syncTournamentData_try post of
        (Inr u, evs) \<Rightarrow> evs
      | (Inl error, evs) \<Rightarrow> evs @ [SyncRegister ''sync-tournament-data''])"

text \<open>The \<open>try\<close> block of \<open>syncPlayerData\<close>: its \<open>if (response.ok)\<close> has no \<open>else\<close>.\<close>

definition syncPlayerData_try :: "poster \<Rightarrow> (thrown + unit) \<times> event list" where
  "syncPlayerData_try post =
     (let players = getStoredData ''players'' in
      case players of
        None \<Rightarrow> (Inr (), [])
      | Some [] \<Rightarrow> (Inr (), [])
      | Some (p # ps) \<Rightarrow>
          (case post ''/api/sync-players'' (p # ps) of
             NetFailure \<Rightarrow> (Inl FetchRejected, [NetPost ''/api/sync-players''])
           | NetResponse response \<Rightarrow>
               if ok response
               then (Inr (), [NetPost ''/api/sync-players'',
                              Broadcast ''SYNC_SUCCESS'' ''players''])
               else (Inr (), [NetPost ''/api/sync-players''])))"

definition syncPlayerData :: "poster \<Rightarrow> event list" where
  "syncPlayerData post =
     (case syncPlayerData_try post of
        (Inr u, evs) \<Rightarrow> evs
      | (Inl error, evs) \<Rightarrow> evs @ [SyncRegister ''sync-player-data''])"

section \<open>The page-side manager (PWAManager)\<close>

text \<open>
  The stored \<open>beforeinstallprompt\<close> event, as far as \<open>promptInstall\<close> uses it: whether
  \<open>prompt()\<close> throws, and how the \<open>userChoice\<close> promise settles (rejected, or fulfilled
  with an object whose \<open>outcome\<close> is the given string).
\<close>

datatype user_choice = ChoiceRejected | ChoiceOutcome string

record install_prompt =
  prompt_throws :: bool
  userChoice :: user_choice

record pwa_manager =
  deferredPrompt :: "install_prompt option"
  isInstalled :: bool
  registration :: "string option"

datatype pwa_event = ConsoleLog string | ConsoleError string | PromptShown

datatype prompt_error = PromptFailed | UserChoiceFailed

text \<open>The \<open>try\<close> block of \<open>promptInstall\<close>: \<open>Inl\<close> is the error thrown out of it.\<close>

definition promptInstall_try :: "install_prompt \<Rightarrow> (prompt_error + bool) \<times> pwa_event list" where
  "promptInstall_try p =
     (if prompt_throws p then (Inl PromptFailed, [])
      else
        (case userChoice p of
           ChoiceRejected \<Rightarrow> (Inl UserChoiceFailed, [PromptShown])
         | ChoiceOutcome outcome \<Rightarrow>
             if outcome = ''accepted''
             then (Inr True, [PromptShown, ConsoleLog ''User accepted install prompt''])
             else (Inr False, [PromptShown, ConsoleLog ''User dismissed install prompt''])))"

text \<open>
  The whole method: the guard, then \<open>try\<close>, \<open>catch\<close> (which returns \<open>false\<close>) and
  \<open>finally\<close> (which clears the stored prompt). \<open>Inl\<close> in the first component would be
  an error escaping the method.
\<close>

definition promptInstall ::
  "pwa_manager \<Rightarrow> (prompt_error + bool) \<times> pwa_manager \<times> pwa_event list" where
  "promptInstall this =
     (case deferredPrompt this of
        None \<Rightarrow> (Inr False, this, [ConsoleLog ''Install prompt not available''])
      | Some p \<Rightarrow>
          (case promptInstall_try p of
             (Inr b, evs) \<Rightarrow> (Inr b, this\<lparr>deferredPrompt := None\<rparr>, evs)
           | (Inl error, evs) \<Rightarrow>
               (Inr False, this\<lparr>deferredPrompt := None\<rparr>,
                evs @ [ConsoleError ''Install prompt error''])))"

text \<open>
  The browser state \<open>getInstallationStatus\<close> reads: \<open>navigator.onLine\<close>, whether
  \<open>Notification\<close> exists in \<open>window\<close>, and \<open>Notification.permission\<close>.
\<close>

record browser =
  onLine :: bool
  notificationSupported :: bool
  notificationPermission :: string

record installation_status =
  status_isInstalled :: bool
  canInstall :: bool
  isOnline :: bool
  hasNotifications :: bool

definition getInstallationStatus :: "browser \<Rightarrow> pwa_manager \<Rightarrow> installation_status" where
  "getInstallationStatus env this =
     \<lparr>status_isInstalled = isInstalled this,
      canInstall = (deferredPrompt this \<noteq> None),
      isOnline = onLine env,
      hasNotifications = (notificationSupported env \<and> notificationPermission env = ''granted'')\<rparr>"

section \<open>Sample inputs\<close>

definition script_request :: request where
  "script_request =
     \<lparr>url = ''https://padel.example/app.js'', http_method = ''GET'',
      destination = ''script'', mode = ''no-cors''\<rparr>"

definition font_request :: request where
  "font_request =
     \<lparr>url = ''https://fonts.googleapis.com/css2?family=Roboto'', http_method = ''GET'',
      destination = ''style'', mode = ''no-cors''\<rparr>"

definition navigation_request :: request where
  "navigation_request =
     \<lparr>url = ''https://padel.example/players.html'', http_method = ''GET'',
      destination = ''document'', mode = ''navigate''\<rparr>"

definition post_request :: request where
  "post_request =
     \<lparr>url = ''https://padel.example/api/score'', http_method = ''POST'',
      destination = [], mode = ''cors''\<rparr>"

definition stale_response :: response where
  "stale_response = \<lparr>status = 200, headers = [], body = ''old''\<rparr>"

definition fresh_response :: response where
  "fresh_response = \<lparr>status = 200, headers = [], body = ''new''\<rparr>"

definition online :: network where
  "online request = \<lparr>reply = NetResponse fresh_response, latency = 40\<rparr>"

definition slow :: network where
  "slow request = \<lparr>reply = NetResponse fresh_response, latency = 9000\<rparr>"

definition offline :: network where
  "offline request = \<lparr>reply = NetFailure, latency = 40\<rparr>"

definition dynamic_only :: cache_storage where
  "dynamic_only = [(DYNAMIC_CACHE, [url script_request \<mapsto> stale_response])]"

definition three_generations :: cache_storage where
  "three_generations =
     [(''padel-static-v2.0.0'', [url script_request \<mapsto> stale_response]),
      (STATIC_CACHE, [url script_request \<mapsto> fresh_response]),
      (DYNAMIC_CACHE, Map.empty)]"

definition sample_prompt :: install_prompt where
  "sample_prompt = \<lparr>prompt_throws = False, userChoice = ChoiceOutcome ''dismissed''\<rparr>"

definition sample_manager :: pwa_manager where
  "sample_manager =
     \<lparr>deferredPrompt = Some sample_prompt, isInstalled = False, registration = None\<rparr>"

definition sample_browser :: browser where
  "sample_browser =
     \<lparr>onLine = True, notificationSupported = True, notificationPermission = ''default''\<rparr>"

section \<open>Properties of the Cache Store\<close>

lemma activate_sweep_caches:
  "fst (activate_sweep names st) =
     filter (\<lambda>entry. fst entry \<notin> {n \<in> set names. \<not> is_current n}) st"
proof (induction names arbitrary: st)
  case Nil
  then show ?case by simp
next
  case (Cons cacheName cacheNames)
  show ?case
  proof (cases "is_current cacheName")
    case True
    then have step: "activate_sweep (cacheName # cacheNames) st = activate_sweep cacheNames st"
      by (auto simp: is_current_def)
    from True have "{n \<in> set (cacheName # cacheNames). \<not> is_current n} = {n \<in> set cacheNames. \<not> is_current n}"
      by auto
    with step Cons.IH [of st] show ?thesis
      by simp
  next
    case False
    then have step: "fst (activate_sweep (cacheName # cacheNames) st)
        = fst (activate_sweep cacheNames (caches_delete cacheName st))"
      by (simp add: is_current_def Let_def)
    have "filter (\<lambda>entry. fst entry \<notin> {n \<in> set cacheNames. \<not> is_current n}) (caches_delete cacheName st)
        = filter (\<lambda>entry. fst entry \<notin> {n \<in> set (cacheName # cacheNames). \<not> is_current n}) st"
      using False by (auto simp: caches_delete_def intro: filter_cong)
    with step Cons.IH [of "caches_delete cacheName st"] show ?thesis
      by simp
  qed
qed

lemma activate_sweep_trace:
  "snd (activate_sweep names st) = map CacheDelete (filter (\<lambda>n. \<not> is_current n) names)"
  by (induction names arbitrary: st) (auto simp: is_current_def Let_def)

lemma activate_caches: "fst (activate st) = filter (\<lambda>entry. is_current (fst entry)) st"
proof -
  have "fst (activate st) = filter (\<lambda>entry. fst entry \<notin> {n \<in> set (map fst st). \<not> is_current n}) st"
    by (simp add: activate_def caches_keys_def activate_sweep_caches)
  also have "\<dots> = filter (\<lambda>entry. is_current (fst entry)) st"
    by (rule filter_cong) auto
  finally show ?thesis .
qed

lemma of_lookup_truthy: "truthy (of_lookup x) = (x \<noteq> None)"
  by (cases x) simp_all

lemma js_or_lookup:
  "js_or (of_lookup x) (Resp d) = Resp (case x of Some c \<Rightarrow> c | None \<Rightarrow> d)"
  by (cases x) (simp_all add: js_or_def)

lemma caches_open_present:
  "map_of st name = Some c \<Longrightarrow> caches_open name st = st"
  by (auto simp: caches_open_def caches_keys_def dest: map_of_SomeD intro: rev_image_eqI)

lemma cache_match_open:
  "cache_match st name key = Some r \<Longrightarrow> caches_open name st = st"
  by (auto simp: cache_match_def split: option.splits intro: caches_open_present)

lemma cache_match_put:
  "name \<in> set (caches_keys st) \<Longrightarrow> cache_match (cache_put st name key r) name key = Some r"
  by (induction st) (auto simp: cache_match_def cache_put_def caches_keys_def)

lemma caches_open_has: "name \<in> set (caches_keys (caches_open name st))"
  by (simp add: caches_open_def caches_keys_def)

lemma caches_match_put:
  "name \<in> set (caches_keys st) \<Longrightarrow> caches_match st key = None \<Longrightarrow>
     caches_match (cache_put st name key r) key = Some r"
  by (induction st) (auto simp: cache_put_def caches_keys_def split: option.splits)

lemma caches_match_open: "caches_match (caches_open name st) key = caches_match st key"
  by (induction st) (auto simp: caches_open_def caches_keys_def split: option.splits)

lemma cacheFirst_then_cached:
  assumes "caches_match st (url request) = None" "reply (net request) = NetResponse r" "ok r"
  shows "caches_match (caches (cacheFirst net request st)) (url request) = Some r"
proof -
  have "caches_match (caches_open STATIC_CACHE st) (url request) = None"
    using assms(1) by (simp add: caches_match_open)
  then have "caches_match (cache_put (caches_open STATIC_CACHE st) STATIC_CACHE (url request) r)
      (url request) = Some r"
    by (rule caches_match_put [OF caches_open_has])
  with assms show ?thesis
    by (simp add: cacheFirst_def)
qed

lemma cacheFirst_always_responds: "\<exists>r. delivered (cacheFirst net request st) = Some r"
  by (cases "caches_match st (url request)")
     (auto simp: cacheFirst_def delivered_def Let_def split: net_outcome.splits)

lemma networkFirst_always_responds: "\<exists>r. delivered (networkFirst net request st) = Some r"
  by (auto simp: networkFirst_def networkFirst_catch_def delivered_def js_or_lookup Let_def
           split: net_outcome.splits)



section \<open>Properties of the routing\<close>

lemma includes_str_sublist: "includes_str s t = sublist t s"
  by (induction s) (auto simp: sublist_Cons_right)

lemma includes_str_slash:
  assumes "includes_str s p" and "includes_str p ''/''"
  shows "includes_str s ''/''"
  using assms unfolding includes_str_sublist by (rule_tac sublist_order.order_trans)

lemma dynamic_patterns_have_slash: "some (\<lambda>p. \<not> includes_str p ''/'') DYNAMIC_ASSETS = False"
  by (simp add: DYNAMIC_ASSETS_def)

lemma some_iff: "some p xs = (\<exists>x \<in> set xs. p x)"
  by (induction xs) auto

lemma route_never_stale_while_revalidate: "route request \<noteq> Some StaleWhileRevalidate"
proof -
  have "some (\<lambda>asset. includes_str (url request) asset) STATIC_ASSETS"
    if "some (\<lambda>pattern. includes_str (url request) pattern) DYNAMIC_ASSETS"
  proof -
    from that obtain p where p: "p \<in> set DYNAMIC_ASSETS" "includes_str (url request) p"
      by (auto simp: some_iff)
    from p(1) have "includes_str p ''/''"
      using dynamic_patterns_have_slash by (auto simp: some_iff)
    with p(2) have "includes_str (url request) ''/''"
      by (rule includes_str_slash)
    then show ?thesis
      by (simp add: STATIC_ASSETS_def)
  qed
  then show ?thesis
    by (auto simp: route_def)
qed

lemma route_get_with_slash:
  assumes "http_method request = ''GET''" and "includes_str (url request) ''/''"
  shows "route request = Some CacheFirst"
  using assms by (simp add: route_def STATIC_ASSETS_def)

section \<open>Properties of the strategies and the sync functions\<close>

lemma networkFirstWithOffline_navigation_fallback:
  assumes "reply (net request) = NetFailure"
    and "caches_match st (url request) = None"
    and "mode request = ''navigate''"
  shows "delivered (networkFirstWithOffline origin net request st) =
           caches_match st (resolve_url origin OFFLINE_PAGE)"
  using assms
  by (cases "caches_match st (resolve_url origin OFFLINE_PAGE)")
     (simp_all add: networkFirstWithOffline_def delivered_def js_or_def)

lemma staleWhileRevalidate_miss_failure:
  assumes "reply (net request) = NetFailure"
    and "cache_match (caches_open DYNAMIC_CACHE st) DYNAMIC_CACHE (url request) = None"
  shows "delivered (staleWhileRevalidate net request st) = None"
  using assms by (simp add: staleWhileRevalidate_def delivered_def js_or_def)

lemma sync_with_empty_store:
  "syncTournamentData post = [] \<and> syncPlayerData post = []"
  by (simp add: syncTournamentData_def syncTournamentData_try_def syncPlayerData_def
        syncPlayerData_try_def getStoredData_def)

lemma cache_match_caches_open:
  "cache_match (caches_open name st) n key = cache_match st n key"
proof (cases "name \<in> set (caches_keys st)")
  case True
  then show ?thesis by (simp add: caches_open_def)
next
  case False
  then have "map_of st name = None"
    by (simp add: caches_keys_def map_of_eq_None_iff)
  then show ?thesis
    using False by (cases "map_of st n") (auto simp: cache_match_def caches_open_def map_add_def)
qed

lemma distinct_generations:
  "STATIC_CACHE \<noteq> DYNAMIC_CACHE" "DYNAMIC_CACHE \<noteq> STATIC_CACHE"
  "STATIC_CACHE \<noteq> CACHE_NAME" "DYNAMIC_CACHE \<noteq> CACHE_NAME"
  by (simp_all add: STATIC_CACHE_def DYNAMIC_CACHE_def CACHE_NAME_def)

lemma map_of_filter_fst:
  "map_of (filter (\<lambda>entry. p (fst entry)) st) name = (if p name then map_of st name else None)"
  by (induction st) auto

section \<open>Routing Classifier\<close>

text \<open>
  Claim C1. For a GET request whose URL begins with a dynamic-asset prefix and is none of
  the static-asset literals, the listener is claimed to select stale-while-revalidate.
  The request for \<open>https://fonts.googleapis.com/css2?family=Roboto\<close> is such a
  request, and the listener selects cache-first for it: the static list contains
  \<open>"/"\<close>, which every such URL includes.
\<close>

theorem route_font_request_cache_first:
  "http_method font_request = ''GET''
   \<and> prefix ''https://fonts.googleapis.com/'' (url font_request)
   \<and> ''https://fonts.googleapis.com/'' \<in> set DYNAMIC_ASSETS
   \<and> url font_request \<notin> set STATIC_ASSETS
   \<and> route font_request = Some CacheFirst
   \<and> fetch_listener origin net font_request st = RespondWith (cacheFirst net font_request st)"
  by (simp add: fetch_listener_def route_def font_request_def STATIC_ASSETS_def
        DYNAMIC_ASSETS_def)

section \<open>Strategy Engine\<close>

text \<open>
  Claim C2. Every strategy is claimed to return a response for every cache and network
  outcome. \<open>staleWhileRevalidate\<close> on an empty cache store with a failing network
  delivers \<open>undefined\<close>: its \<open>catch\<close> handler yields the cache lookup's result, which
  is \<open>undefined\<close> on a miss.
\<close>

theorem staleWhileRevalidate_miss_offline_absent:
  "cache_match [] DYNAMIC_CACHE (url font_request) = None
   \<and> reply (offline font_request) = NetFailure
   \<and> delivered (staleWhileRevalidate offline font_request []) = None"
  by (simp add: staleWhileRevalidate_def delivered_def js_or_def cache_match_def
        caches_open_def caches_keys_def offline_def)

text \<open>
  Claim C3. A failed navigation with neither the page nor the offline document in any
  cache is claimed to get the synthetic 503 HTML response. In \<open>networkFirstWithOffline\<close>
  the left operand of \<open>||\<close> is a promise, which is truthy, so the HTML response is never
  chosen and the caller receives \<open>undefined\<close>.
\<close>

theorem networkFirstWithOffline_navigation_absent:
  "reply (offline navigation_request) = NetFailure
   \<and> caches_match dynamic_only (url navigation_request) = None
   \<and> mode navigation_request = ''navigate''
   \<and> caches_match dynamic_only (resolve_url ''https://padel.example'' OFFLINE_PAGE) = None
   \<and> delivered (networkFirstWithOffline ''https://padel.example'' offline navigation_request
         dynamic_only) = None
   \<and> delivered (networkFirstWithOffline ''https://padel.example'' offline navigation_request
         dynamic_only) \<noteq> Some offline_html_response"
  by (simp add: networkFirstWithOffline_def delivered_def js_or_def offline_def
        navigation_request_def script_request_def dynamic_only_def resolve_url_def
        OFFLINE_PAGE_def)

text \<open>
  Claim C5, as stated: \<open>cacheFirst\<close> looks the key up in the STATIC cache, and on a miss
  there fetches from the network and returns the network's response. With the key held
  by the DYNAMIC cache only, the STATIC cache misses, yet no fetch is issued and the
  DYNAMIC entry is returned: the lookup is \<open>caches.match\<close>, over every generation.
\<close>

theorem cacheFirst_static_lookup_counterexample:
  "\<not> (cache_match dynamic_only STATIC_CACHE (url script_request) = None \<longrightarrow>
        NetFetch (url script_request) \<in> set (trace (cacheFirst online script_request dynamic_only))
        \<and> returned (cacheFirst online script_request dynamic_only) = Resp fresh_response)"
  by (simp add: cacheFirst_def cache_match_def dynamic_only_def distinct_generations
        script_request_def)

text \<open>
  Claim C5, amended: \<open>cacheFirst\<close> looks the key up in every cache generation; a hit is
  returned at once and the network is not touched. On a miss everywhere it fetches: an
  ok response is stored into the STATIC cache and returned, a non-ok response is
  returned and the store is left as it was, and a transport failure gives the synthetic
  503 response.
\<close>

theorem cacheFirst_lookup_all_generations:
  "(caches_match st (url request) = Some c \<longrightarrow>
      cacheFirst net request st =
        \<lparr>returned = Resp c, elapsed = 0, caches = st, trace = [CachesMatch (url request)]\<rparr>)
   \<and> (caches_match st (url request) = None \<and> reply (net request) = NetResponse r \<and> ok r \<longrightarrow>
      returned (cacheFirst net request st) = Resp r
      \<and> NetFetch (url request) \<in> set (trace (cacheFirst net request st))
      \<and> caches (cacheFirst net request st) =
          cache_put (caches_open STATIC_CACHE st) STATIC_CACHE (url request) r
      \<and> cache_match (caches (cacheFirst net request st)) STATIC_CACHE (url request) = Some r)
   \<and> (caches_match st (url request) = None \<and> reply (net request) = NetResponse r \<and> \<not> ok r \<longrightarrow>
      returned (cacheFirst net request st) = Resp r \<and> caches (cacheFirst net request st) = st)
   \<and> (caches_match st (url request) = None \<and> reply (net request) = NetFailure \<longrightarrow>
      returned (cacheFirst net request st) = Resp offline_response
      \<and> caches (cacheFirst net request st) = st)"
  by (simp add: cacheFirst_def cache_match_put caches_open_has)

theorem cacheFirst_lookup_all_generations_witness:
  "caches_match dynamic_only (url script_request) = Some stale_response
   \<and> cacheFirst online script_request dynamic_only =
       \<lparr>returned = Resp stale_response, elapsed = 0, caches = dynamic_only,
        trace = [CachesMatch (url script_request)]\<rparr>
   \<and> caches_match [] (url script_request) = None
   \<and> reply (online script_request) = NetResponse fresh_response \<and> ok fresh_response
   \<and> returned (cacheFirst online script_request []) = Resp fresh_response
   \<and> cache_match (caches (cacheFirst online script_request [])) STATIC_CACHE
        (url script_request) = Some fresh_response"
proof -
  have hit: "caches_match dynamic_only (url script_request) = Some stale_response"
    by (simp add: dynamic_only_def)
  have miss: "caches_match [] (url script_request) = None
      \<and> reply (online script_request) = NetResponse fresh_response \<and> ok fresh_response"
    by (simp add: online_def ok_def fresh_response_def)
  show ?thesis
    using hit miss
      cacheFirst_lookup_all_generations
        [where st = dynamic_only and request = script_request and c = stale_response
           and net = online and r = fresh_response]
      cacheFirst_lookup_all_generations
        [where st = "[]" and request = script_request and c = stale_response
           and net = online and r = fresh_response]
    by (simp add: cache_match_put caches_open_has)
qed



text \<open>
  Claim C7. \<open>staleWhileRevalidate\<close> always issues the refresh fetch, and on a hit as on
  a miss the refresh leaves the opened DYNAMIC cache with the network's response stored
  under the request exactly when that response is ok, and otherwise as it was. When the
  DYNAMIC cache holds an entry for the request, that entry is what is returned, whatever
  the network does, and it is delivered without waiting for the network's latency. When
  it holds none, the caller waits for the network and receives its response.
\<close>

theorem staleWhileRevalidate_cached:
  "NetFetch (url request) \<in> set (trace (staleWhileRevalidate net request st))
   \<and> (CachePut DYNAMIC_CACHE (url request) \<in> set (trace (staleWhileRevalidate net request st))
        \<longleftrightarrow> (\<exists>r. reply (net request) = NetResponse r \<and> ok r))
   \<and> caches (staleWhileRevalidate net request st) =
        (case reply (net request) of
           NetResponse r \<Rightarrow>
             if ok r then cache_put (caches_open DYNAMIC_CACHE st) DYNAMIC_CACHE (url request) r
             else caches_open DYNAMIC_CACHE st
         | NetFailure \<Rightarrow> caches_open DYNAMIC_CACHE st)
   \<and> cache_match (caches (staleWhileRevalidate net request st)) DYNAMIC_CACHE (url request) =
        (case reply (net request) of
           NetResponse r \<Rightarrow> if ok r then Some r else cache_match st DYNAMIC_CACHE (url request)
         | NetFailure \<Rightarrow> cache_match st DYNAMIC_CACHE (url request))
   \<and> (cache_match st DYNAMIC_CACHE (url request) = Some c \<longrightarrow>
        returned (staleWhileRevalidate net request st) = Resp c
        \<and> delivery_time (staleWhileRevalidate net request st) = 0
        \<and> caches (staleWhileRevalidate net request st) =
            (case reply (net request) of
               NetResponse r \<Rightarrow> if ok r then cache_put st DYNAMIC_CACHE (url request) r else st
             | NetFailure \<Rightarrow> st))
   \<and> (cache_match st DYNAMIC_CACHE (url request) = None \<and> reply (net request) = NetResponse r \<longrightarrow>
        delivered (staleWhileRevalidate net request st) = Some r
        \<and> delivery_time (staleWhileRevalidate net request st) = latency (net request))"
proof -
  let ?res = "staleWhileRevalidate net request st"
  have fetch: "NetFetch (url request) \<in> set (trace ?res)"
    by (simp add: staleWhileRevalidate_def Let_def)
  have put: "CachePut DYNAMIC_CACHE (url request) \<in> set (trace ?res)
      \<longleftrightarrow> (\<exists>r. reply (net request) = NetResponse r \<and> ok r)"
    by (cases "reply (net request)") (auto simp: staleWhileRevalidate_def Let_def)
  have store: "caches ?res =
        (case reply (net request) of
           NetResponse r \<Rightarrow>
             if ok r then cache_put (caches_open DYNAMIC_CACHE st) DYNAMIC_CACHE (url request) r
             else caches_open DYNAMIC_CACHE st
         | NetFailure \<Rightarrow> caches_open DYNAMIC_CACHE st)"
    by (cases "reply (net request)") (simp_all add: staleWhileRevalidate_def Let_def)
  have entry: "cache_match (caches ?res) DYNAMIC_CACHE (url request) =
        (case reply (net request) of
           NetResponse r \<Rightarrow> if ok r then Some r else cache_match st DYNAMIC_CACHE (url request)
         | NetFailure \<Rightarrow> cache_match st DYNAMIC_CACHE (url request))"
    unfolding store
    by (cases "reply (net request)")
       (simp_all add: cache_match_put caches_open_has cache_match_caches_open)
  have hit: "returned ?res = Resp c \<and> delivery_time ?res = 0
        \<and> caches ?res =
            (case reply (net request) of
               NetResponse r \<Rightarrow> if ok r then cache_put st DYNAMIC_CACHE (url request) r else st
             | NetFailure \<Rightarrow> st)"
    if "cache_match st DYNAMIC_CACHE (url request) = Some c"
    using that
    by (cases "reply (net request)")
       (auto simp: staleWhileRevalidate_def Let_def js_or_def delivery_time_def cache_match_open)
  have miss: "delivered ?res = Some r \<and> delivery_time ?res = latency (net request)"
    if "cache_match st DYNAMIC_CACHE (url request) = None" "reply (net request) = NetResponse r"
    using that
    by (simp add: staleWhileRevalidate_def Let_def js_or_def delivery_time_def delivered_def
          cache_match_caches_open)
  from fetch put store entry hit miss show ?thesis
    by blast
qed

theorem staleWhileRevalidate_cached_witness:
  "cache_match dynamic_only DYNAMIC_CACHE (url script_request) = Some stale_response
   \<and> returned (staleWhileRevalidate slow script_request dynamic_only) = Resp stale_response
   \<and> delivery_time (staleWhileRevalidate slow script_request dynamic_only) = 0
   \<and> returned (staleWhileRevalidate offline script_request dynamic_only) = Resp stale_response
   \<and> caches (staleWhileRevalidate offline script_request dynamic_only) = dynamic_only
   \<and> cache_match (caches (staleWhileRevalidate slow script_request dynamic_only))
        DYNAMIC_CACHE (url script_request) = Some fresh_response
   \<and> cache_match [] DYNAMIC_CACHE (url script_request) = None
   \<and> reply (online script_request) = NetResponse fresh_response
   \<and> delivered (staleWhileRevalidate online script_request []) = Some fresh_response
   \<and> delivery_time (staleWhileRevalidate online script_request []) = 40
   \<and> cache_match (caches (staleWhileRevalidate online script_request []))
        DYNAMIC_CACHE (url script_request) = Some fresh_response"
proof -
  have hit: "cache_match dynamic_only DYNAMIC_CACHE (url script_request) = Some stale_response"
    by (simp add: cache_match_def dynamic_only_def)
  have miss: "cache_match [] DYNAMIC_CACHE (url script_request) = None
      \<and> reply (online script_request) = NetResponse fresh_response"
    by (simp add: cache_match_def online_def)
  have fresh: "ok fresh_response"
    by (simp add: ok_def fresh_response_def)
  have late: "returned (staleWhileRevalidate slow script_request dynamic_only) = Resp stale_response
      \<and> delivery_time (staleWhileRevalidate slow script_request dynamic_only) = 0
      \<and> cache_match (caches (staleWhileRevalidate slow script_request dynamic_only))
           DYNAMIC_CACHE (url script_request) = Some fresh_response"
    using hit fresh
      staleWhileRevalidate_cached
        [where net = slow and request = script_request and st = dynamic_only
           and c = stale_response and r = fresh_response]
    by (simp add: slow_def cache_match_put caches_open_has)
  have failed: "returned (staleWhileRevalidate offline script_request dynamic_only) =
        Resp stale_response
      \<and> caches (staleWhileRevalidate offline script_request dynamic_only) = dynamic_only"
    using hit
      staleWhileRevalidate_cached
        [where net = offline and request = script_request and st = dynamic_only
           and c = stale_response and r = fresh_response]
    by (simp add: offline_def cache_match_open [OF hit])
  have empty: "delivered (staleWhileRevalidate online script_request []) = Some fresh_response
      \<and> delivery_time (staleWhileRevalidate online script_request []) = 40
      \<and> cache_match (caches (staleWhileRevalidate online script_request []))
           DYNAMIC_CACHE (url script_request) = Some fresh_response"
    using miss fresh
      staleWhileRevalidate_cached
        [where net = online and request = script_request and st = "[]"
           and c = stale_response and r = fresh_response]
    by (simp add: online_def cache_match_put caches_open_has)
  from hit miss late failed empty show ?thesis
    by blast
qed

section \<open>Cache Lifecycle Manager\<close>

text \<open>
  Claim C8. Whatever cache generations exist, activation keeps exactly the entries of
  the store whose name is the current STATIC, DYNAMIC or umbrella name, in their order
  and with their contents as they were, and deletes every other generation: looking a
  current name up afterwards gives the cache it gave before, any other name gives
  nothing, and the deletions issued are those of the other names.
\<close>

theorem activate_retains_current:
  "fst (activate st) =
     filter (\<lambda>entry. fst entry = STATIC_CACHE \<or> fst entry = DYNAMIC_CACHE
                      \<or> fst entry = CACHE_NAME) st
   \<and> map_of (fst (activate st)) name =
       (if name = STATIC_CACHE \<or> name = DYNAMIC_CACHE \<or> name = CACHE_NAME
        then map_of st name else None)
   \<and> snd (activate st) =
       map CacheDelete
         (filter (\<lambda>name. name \<noteq> STATIC_CACHE \<and> name \<noteq> DYNAMIC_CACHE \<and> name \<noteq> CACHE_NAME)
            (caches_keys st))"
proof -
  have kept: "fst (activate st) = filter (\<lambda>entry. is_current (fst entry)) st"
    by (rule activate_caches)
  have "map_of (fst (activate st)) name = (if is_current name then map_of st name else None)"
    unfolding kept by (rule map_of_filter_fst)
  moreover have "snd (activate st) =
      map CacheDelete (filter (\<lambda>n. \<not> is_current n) (caches_keys st))"
    by (simp add: activate_def activate_sweep_trace)
  ultimately show ?thesis
    using kept by (simp add: is_current_def)
qed

theorem activate_retains_current_witness:
  "fst (activate three_generations) =
     [(STATIC_CACHE, [url script_request \<mapsto> fresh_response]), (DYNAMIC_CACHE, Map.empty)]
   \<and> map_of (fst (activate three_generations)) ''padel-static-v2.0.0'' = None
   \<and> snd (activate three_generations) = [CacheDelete ''padel-static-v2.0.0'']"
  using activate_retains_current [of three_generations "''padel-static-v2.0.0''"]
  by (simp add: three_generations_def caches_keys_def STATIC_CACHE_def DYNAMIC_CACHE_def
        CACHE_NAME_def)

section \<open>Requests that are not intercepted\<close>

text \<open>
  Claim C9. For a request whose method is not GET the fetch listener returns without
  calling \<open>respondWith\<close>: the request is left to the browser, no operation on the
  Cache Store or the network is issued by the worker, and the store is as it was.
\<close>

theorem non_get_passes_through:
  "http_method request \<noteq> ''GET'' \<Longrightarrow>
     fetch_listener origin net request st = PassThrough
     \<and> trace_of (fetch_listener origin net request st) = []
     \<and> caches_after st (fetch_listener origin net request st) = st"
  by (simp add: fetch_listener_def route_def)

theorem non_get_passes_through_witness:
  "http_method post_request \<noteq> ''GET''
   \<and> fetch_listener ''https://padel.example'' online post_request dynamic_only = PassThrough
   \<and> trace_of (fetch_listener ''https://padel.example'' online post_request dynamic_only) = []
   \<and> caches_after dynamic_only
        (fetch_listener ''https://padel.example'' online post_request dynamic_only) = dynamic_only"
proof -
  have h: "http_method post_request \<noteq> ''GET''"
    by (simp add: post_request_def)
  show ?thesis
    using h non_get_passes_through [OF h, of "''https://padel.example''" online dynamic_only]
    by simp
qed

section \<open>Install prompt\<close>

text \<open>
  Claim C10. \<open>promptInstall\<close> never lets an error escape. With no stored prompt it
  returns \<open>false\<close>, shows no prompt and leaves the manager as it was. After any call
  the stored prompt is cleared (whether the user accepted or dismissed, or the prompt or
  the choice failed), so \<open>getInstallationStatus\<close> then reports \<open>canInstall\<close> as false.
\<close>

theorem promptInstall_clears_prompt:
  "(\<exists>b. fst (promptInstall this) = Inr b)
   \<and> (deferredPrompt this = None \<longrightarrow>
        promptInstall this = (Inr False, this, [ConsoleLog ''Install prompt not available'']))
   \<and> deferredPrompt (fst (snd (promptInstall this))) = None
   \<and> isInstalled (fst (snd (promptInstall this))) = isInstalled this
   \<and> canInstall (getInstallationStatus env (fst (snd (promptInstall this)))) = False"
  by (cases "deferredPrompt this")
     (auto simp: promptInstall_def getInstallationStatus_def split: prod.splits sum.splits)

theorem promptInstall_clears_prompt_witness:
  "canInstall (getInstallationStatus sample_browser sample_manager)
   \<and> promptInstall sample_manager =
       (Inr False, sample_manager\<lparr>deferredPrompt := None\<rparr>,
        [PromptShown, ConsoleLog ''User dismissed install prompt''])
   \<and> \<not> canInstall (getInstallationStatus sample_browser (fst (snd (promptInstall sample_manager))))
   \<and> deferredPrompt (sample_manager\<lparr>deferredPrompt := None\<rparr>) = None
   \<and> promptInstall (sample_manager\<lparr>deferredPrompt := None\<rparr>) =
       (Inr False, sample_manager\<lparr>deferredPrompt := None\<rparr>,
        [ConsoleLog ''Install prompt not available''])"
proof -
  have before: "canInstall (getInstallationStatus sample_browser sample_manager)"
    by (simp add: getInstallationStatus_def sample_manager_def)
  have run: "promptInstall sample_manager =
       (Inr False, sample_manager\<lparr>deferredPrompt := None\<rparr>,
        [PromptShown, ConsoleLog ''User dismissed install prompt''])"
    by (simp add: promptInstall_def promptInstall_try_def sample_manager_def sample_prompt_def)
  have none: "deferredPrompt (sample_manager\<lparr>deferredPrompt := None\<rparr>) = None"
    by simp
  show ?thesis
    using before run none
      promptInstall_clears_prompt [of sample_manager sample_browser]
      promptInstall_clears_prompt [of "sample_manager\<lparr>deferredPrompt := None\<rparr>" sample_browser]
    by simp
qed

end
